theory Spec2Isabelle
  imports Main "HOL-Library.AList"
begin

section \<open>JSON values as the Python code holds them\<close>

text \<open>
  The handlers of \<^verbatim>\<open>app.py\<close> work on whatever \<^verbatim>\<open>request.get_json()\<close> and
  \<^verbatim>\<open>json.load\<close> return: \<^verbatim>\<open>None\<close>, a bool, a number, a string, a list or a dict with
  string keys. A dict is an association list in insertion order, written with
  \<open>AList.update\<close> (replace in place, or append), which is what item assignment does to a
  Python dict. A Python float is named by its \<^verbatim>\<open>repr\<close> text (every float has exactly one),
  so no floating-point arithmetic is modelled; the code does none.
\<close>

datatype json =
    JNull
  | JBool bool
  | JNum int
  | JFloat string
  | JStr string
  | JArr "json list"
  | JObj "(string \<times> json) list"

text \<open>Python truthiness, as used by \<^verbatim>\<open>if not trade_data\<close> and \<^verbatim>\<open>if not trade_id\<close>.\<close>

fun truthy :: "json \<Rightarrow> bool" where
  "truthy JNull = False"
| "truthy (JBool b) = b"
| "truthy (JNum n) = (n \<noteq> 0)"
| "truthy (JFloat r) = (r \<noteq> ''0.0'' \<and> r \<noteq> ''-0.0'')"
| "truthy (JStr s) = (s \<noteq> [])"
| "truthy (JArr xs) = (xs \<noteq> [])"
| "truthy (JObj kvs) = (kvs \<noteq> [])"

fun type_name :: "json \<Rightarrow> string" where
  "type_name JNull = ''NoneType''"
| "type_name (JBool b) = ''bool''"
| "type_name (JNum n) = ''int''"
| "type_name (JFloat r) = ''float''"
| "type_name (JStr s) = ''str''"
| "type_name (JArr xs) = ''list''"
| "type_name (JObj kvs) = ''dict''"

subsection \<open>String conversion (\<^verbatim>\<open>str\<close>, \<^verbatim>\<open>repr\<close>, f-strings)\<close>

function str_nat :: "nat \<Rightarrow> string" where
  "str_nat n =
     (if n < 10 then [''0123456789'' ! n]
      else str_nat (n div 10) @ [''0123456789'' ! (n mod 10)])"
  by pat_completeness auto
termination
  by (relation "measure id") auto

definition str_int :: "int \<Rightarrow> string" where
  "str_int i = (if i < 0 then CHR ''-'' # str_nat (nat (- i)) else str_nat (nat i))"

definition hex2 :: "char \<Rightarrow> string" where
  "hex2 c = [''0123456789abcdef'' ! ((of_char c :: nat) div 16),
             ''0123456789abcdef'' ! ((of_char c :: nat) mod 16)]"

text \<open>
  \<^verbatim>\<open>repr\<close> of a string: single quotes unless the text holds a single quote and no double
  quote; backslash, the chosen quote, tab, newline and carriage return are escaped, other
  control characters are written \<^verbatim>\<open>\xhh\<close>. Bytes from 0x80 on (UTF-8 of non-ASCII text)
  are kept as they are.
\<close>

definition repr_quote :: "string \<Rightarrow> char" where
  "repr_quote s =
     (if CHR 0x27 \<in> set s \<and> CHR 0x22 \<notin> set s then CHR 0x22 else CHR 0x27)"

definition repr_char :: "char \<Rightarrow> char \<Rightarrow> string" where
  "repr_char q c =
     (if c = q \<or> c = CHR 0x5C then [CHR 0x5C, c]
      else if c = CHR 0x09 then [CHR 0x5C, CHR ''t'']
      else if c = CHR 0x0A then [CHR 0x5C, CHR ''n'']
      else if c = CHR 0x0D then [CHR 0x5C, CHR ''r'']
      else if (of_char c :: nat) < 32 \<or> c = CHR 0x7F then [CHR 0x5C, CHR ''x''] @ hex2 c
      else [c])"

definition repr_str :: "string \<Rightarrow> string" where
  "repr_str s = (let q = repr_quote s in [q] @ concat (map (repr_char q) s) @ [q])"

fun join :: "string \<Rightarrow> string list \<Rightarrow> string" where
  "join sep [] = []"
| "join sep [x] = x"
| "join sep (x # y # ys) = x @ sep @ join sep (y # ys)"

fun py_repr :: "json \<Rightarrow> string" where
  "py_repr JNull = ''None''"
| "py_repr (JBool b) = (if b then ''True'' else ''False'')"
| "py_repr (JNum n) = str_int n"
| "py_repr (JFloat r) = r"
| "py_repr (JStr s) = repr_str s"
| "py_repr (JArr xs) = ''['' @ join '', '' (map py_repr xs) @ '']''"
| "py_repr (JObj kvs) =
     ''{'' @ join '', '' (map (\<lambda>kv. repr_str (fst kv) @ '': '' @ py_repr (snd kv)) kvs) @ ''}''"

text \<open>\<^verbatim>\<open>f"{trade_id}"\<close>: a string is interpolated as it is, anything else by its \<^verbatim>\<open>repr\<close>.\<close>

fun py_str :: "json \<Rightarrow> string" where
  "py_str (JStr s) = s"
| "py_str v = py_repr v"

section \<open>Exceptions, request bodies and responses\<close>

text \<open>
  Every exception carries the text \<^verbatim>\<open>str(e)\<close> that the 500 envelope echoes. The text of
  an error raised by a library (the JSON decoder, Flask) is supplied with the input that
  causes it; the text of an error raised by the interpreter follows CPython 3.
\<close>

datatype exc =
    JSONDecodeError string
  | BadRequest string
  | TypeError string
  | AttributeError string
  | FileNotFoundError string
  | IsADirectoryError string
  | OSError string
  | ValueError string

fun str_exc :: "exc \<Rightarrow> string" where
  "str_exc (JSONDecodeError m) = m"
| "str_exc (BadRequest m) = m"
| "str_exc (TypeError m) = m"
| "str_exc (AttributeError m) = m"
| "str_exc (FileNotFoundError m) = m"
| "str_exc (IsADirectoryError m) = m"
| "str_exc (OSError m) = m"
| "str_exc (ValueError m) = m"

text \<open>
  The body of a request sent with a JSON content type: either text that parses, or text
  that does not (given with the text of the error Flask raises for it).
\<close>

datatype body = Malformed string | Json json

text \<open>
  \<^verbatim>\<open>request.get_json()\<close> of Flask: the parsed value, and on text that does not parse
  \<^verbatim>\<open>on_json_loading_failed\<close>, which raises werkzeug's \<^verbatim>\<open>BadRequest\<close> (an
  \<^verbatim>\<open>HTTPException\<close>, hence an \<^verbatim>\<open>Exception\<close>, and not a \<^verbatim>\<open>json.JSONDecodeError\<close>).
\<close>

fun get_json :: "body \<Rightarrow> exc + json" where
  "get_json (Json v) = Inr v"
| "get_json (Malformed m) = Inl (BadRequest m)"

record response =
  status :: nat
  payload :: "(string \<times> json) list"

subsection \<open>The dict operations the code applies to a body\<close>

fun is_prefix :: "string \<Rightarrow> string \<Rightarrow> bool" where
  "is_prefix [] ys = True"
| "is_prefix (x # xs) [] = False"
| "is_prefix (x # xs) (y # ys) = (x = y \<and> is_prefix xs ys)"

fun is_substring :: "string \<Rightarrow> string \<Rightarrow> bool" where
  "is_substring xs [] = (xs = [])"
| "is_substring xs (y # ys) = (is_prefix xs (y # ys) \<or> is_substring xs ys)"

text \<open>
  \<^verbatim>\<open>field in trade_data\<close>: a key of a dict, an element of a list, a substring of a
  string; a \<^verbatim>\<open>TypeError\<close> on anything else.
\<close>

fun py_contains :: "json \<Rightarrow> string \<Rightarrow> exc + bool" where
  "py_contains (JObj kvs) k = Inr (k \<in> fst ` set kvs)"
| "py_contains (JArr xs) k = Inr (JStr k \<in> set xs)"
| "py_contains (JStr s) k = Inr (is_substring k s)"
| "py_contains v k =
     Inl (TypeError (''argument of type '' @ [CHR 0x27] @ type_name v @ [CHR 0x27]
                      @ '' is not iterable''))"

text \<open>\<^verbatim>\<open>trade_data.get(k)\<close>: \<^verbatim>\<open>None\<close> for an absent key; only a dict has the method.\<close>

fun py_get :: "json \<Rightarrow> string \<Rightarrow> exc + json" where
  "py_get (JObj kvs) k = Inr (case map_of kvs k of None \<Rightarrow> JNull | Some v \<Rightarrow> v)"
| "py_get v k =
     Inl (AttributeError ([CHR 0x27] @ type_name v @ [CHR 0x27]
                           @ '' object has no attribute '' @ [CHR 0x27] @ ''get'' @ [CHR 0x27]))"

text \<open>\<^verbatim>\<open>trade_data[k] = v\<close>: the dict is updated in place; anything else raises.\<close>

fun py_setitem :: "json \<Rightarrow> string \<Rightarrow> json \<Rightarrow> exc + json" where
  "py_setitem (JObj kvs) k v = Inr (JObj (AList.update k v kvs))"
| "py_setitem (JArr xs) k v =
     Inl (TypeError ''list indices must be integers or slices, not str'')"
| "py_setitem d k v =
     Inl (TypeError ([CHR 0x27] @ type_name d @ [CHR 0x27]
                      @ '' object does not support item assignment''))"

section \<open>The file system under the server\<close>

text \<open>
  The files are a table from path to content. A file holds either JSON text (kept as the
  value \<^verbatim>\<open>json.load\<close> returns for it, which is the value \<^verbatim>\<open>json.dump\<close> wrote) or
  text the decoder rejects (kept as the text of the decoder's error). Paths are compared
  as strings. The file system holds the directory \<^verbatim>\<open>trades\<close>, made when the module is
  loaded and there throughout, and the files of the table, and nothing else: a directory
  other than \<^verbatim>\<open>trades\<close> is there exactly when it holds a file of the table. The
  components \<^verbatim>\<open>.\<close> and \<^verbatim>\<open>..\<close> are not resolved, and the working directory and the
  root are outside the table: a path that leaves the container has a directory only when
  a file of the table lies in it. The medium itself (space, permissions) does not fail.
\<close>

datatype file_data = Parsed json | Corrupt string

type_synonym files = "(string \<times> file_data) list"

definition TRADES_DIR :: string where
  "TRADES_DIR = ''trades''"

text \<open>\<^verbatim>\<open>os.path.join\<close> of a directory and one component: an absolute component wins.\<close>

definition path_join :: "string \<Rightarrow> string \<Rightarrow> string" where
  "path_join d n = (if is_prefix ''/'' n then n else d @ ''/'' @ n)"

definition path_exists :: "string \<Rightarrow> files \<Rightarrow> bool" where
  "path_exists p fs = (map_of fs p \<noteq> None)"

text \<open>The last component of a path, and what stands before its last separator.\<close>

definition base_name :: "string \<Rightarrow> string" where
  "base_name p = rev (takeWhile (\<lambda>c. c \<noteq> CHR ''/'') (rev p))"

definition parent_dir :: "string \<Rightarrow> string" where
  "parent_dir p = rev (drop 1 (dropWhile (\<lambda>c. c \<noteq> CHR ''/'') (rev p)))"

definition is_dir :: "string \<Rightarrow> files \<Rightarrow> bool" where
  "is_dir d fs = (d = TRADES_DIR \<or> list_ex (is_prefix (d @ ''/'')) (map fst fs))"

text \<open>
  \<^verbatim>\<open>open(p, 'w')\<close> makes a new file when the path has no NUL byte, its directory is
  there, its last component is a name of at most 255 bytes (\<^verbatim>\<open>NAME_MAX\<close>) and it is
  not a directory itself. Otherwise it raises: \<^verbatim>\<open>ValueError\<close> for the NUL byte,
  \<^verbatim>\<open>FileNotFoundError\<close> for the missing directory, \<^verbatim>\<open>OSError\<close> for the name too long,
  \<^verbatim>\<open>IsADirectoryError\<close> for a directory.
\<close>

definition can_create :: "string \<Rightarrow> files \<Rightarrow> bool" where
  "can_create p fs =
     (CHR 0x00 \<notin> set p \<and> is_dir (parent_dir p) fs \<and> base_name p \<noteq> []
      \<and> length (base_name p) \<le> 255 \<and> \<not> is_dir p fs)"

definition open_error :: "string \<Rightarrow> files \<Rightarrow> exc" where
  "open_error p fs =
     (if CHR 0x00 \<in> set p then ValueError ''embedded null byte''
      else if \<not> is_dir (parent_dir p) fs
        then FileNotFoundError (''[Errno 2] No such file or directory: '' @ repr_str p)
      else if 255 < length (base_name p)
        then OSError (''[Errno 36] File name too long: '' @ repr_str p)
      else IsADirectoryError (''[Errno 21] Is a directory: '' @ repr_str p))"

text \<open>The table once \<^verbatim>\<open>json.dump(v, f, indent=2)\<close> has written the file at \<open>p\<close>.\<close>

definition put_file :: "string \<Rightarrow> json \<Rightarrow> files \<Rightarrow> files" where
  "put_file p v fs = AList.update p (Parsed v) fs"

text \<open>
  \<^verbatim>\<open>with open(p, 'w') as f: json.dump(v, f, indent=2)\<close>: a file that is there is
  rewritten, a new one is made where \<^verbatim>\<open>open\<close> can make it, and otherwise the error of
  \<^verbatim>\<open>open\<close> is raised and nothing is written.
\<close>

definition write_json :: "string \<Rightarrow> json \<Rightarrow> files \<Rightarrow> exc + files" where
  "write_json p v fs =
     (if path_exists p fs \<or> can_create p fs then Inr (put_file p v fs)
      else Inl (open_error p fs))"

text \<open>\<^verbatim>\<open>with open(p, 'r') as f: json.load(f)\<close>\<close>

definition read_json :: "string \<Rightarrow> files \<Rightarrow> exc + json" where
  "read_json p fs =
     (case map_of fs p of
        None \<Rightarrow> Inl (FileNotFoundError (''[Errno 2] No such file or directory: '' @ repr_str p))
      | Some (Corrupt m) \<Rightarrow> Inl (JSONDecodeError m)
      | Some (Parsed v) \<Rightarrow> Inr v)"

definition remove_file :: "string \<Rightarrow> files \<Rightarrow> files" where
  "remove_file p fs = AList.delete p fs"

definition endswith :: "string \<Rightarrow> string \<Rightarrow> bool" where
  "endswith s suf = (length suf \<le> length s \<and> drop (length s - length suf) s = suf)"

text \<open>\<^verbatim>\<open>os.listdir(d)\<close>: the names of the files directly inside \<open>d\<close>, in table order.\<close>

definition child_name :: "string \<Rightarrow> string \<Rightarrow> string option" where
  "child_name d p =
     (let n = drop (length d + 1) p
      in if take (length d + 1) p = d @ ''/'' \<and> n \<noteq> [] \<and> CHR ''/'' \<notin> set n
         then Some n else None)"

definition listdir :: "string \<Rightarrow> files \<Rightarrow> string list" where
  "listdir d fs = List.map_filter (child_name d) (map fst fs)"

section \<open>\<^verbatim>\<open>TradeManager\<close>\<close>

text \<open>
  \<^verbatim>\<open>save_trade(trade_data)\<close>, given the value \<^verbatim>\<open>str(uuid.uuid4())\<close> would return and
  the value \<^verbatim>\<open>datetime.now().isoformat()\<close> would return. It yields the identifier, the
  dict as the call leaves it (the code mutates its argument) and the files; when the
  file cannot be written, the error of \<^verbatim>\<open>open\<close> leaves the call.
\<close>

definition save_trade ::
  "json \<Rightarrow> string \<Rightarrow> string \<Rightarrow> files \<Rightarrow> exc + (json \<times> json \<times> files)" where
  "save_trade trade_data uuid4 now fs =
     (case py_get trade_data ''trade_id'' of
        Inl e \<Rightarrow> Inl e
      | Inr trade_id0 \<Rightarrow>
          (case (if \<not> truthy trade_id0
                 then (case py_setitem trade_data ''trade_id'' (JStr uuid4) of
                         Inl e \<Rightarrow> Inl e
                       | Inr d \<Rightarrow> Inr (JStr uuid4, d))
                 else Inr (trade_id0, trade_data)) of
             Inl e \<Rightarrow> Inl e
           | Inr (trade_id, d1) \<Rightarrow>
               (case py_contains d1 ''timestamp'' of
                  Inl e \<Rightarrow> Inl e
                | Inr present \<Rightarrow>
                    (case (if \<not> present then py_setitem d1 ''timestamp'' (JStr now)
                           else Inr d1) of
                       Inl e \<Rightarrow> Inl e
                     | Inr d2 \<Rightarrow>
                         (let file_path = path_join TRADES_DIR (py_str trade_id @ ''.json'')
                          in (case write_json file_path d2 fs of
                                Inl e \<Rightarrow> Inl e
                              | Inr fs' \<Rightarrow> Inr (trade_id, d2, fs')))))))"

text \<open>\<^verbatim>\<open>TradeManager.get_trade\<close>: Python's \<^verbatim>\<open>None\<close> when there is no such file.\<close>

definition TradeManager_get_trade :: "string \<Rightarrow> files \<Rightarrow> exc + json" where
  "TradeManager_get_trade trade_id fs =
     (let file_path = path_join TRADES_DIR (trade_id @ ''.json'')
      in if path_exists file_path fs then read_json file_path fs else Inr JNull)"

text \<open>The loop of \<^verbatim>\<open>TradeManager.get_all_trades\<close> over the directory listing.\<close>

fun load_trades :: "string list \<Rightarrow> files \<Rightarrow> json list \<Rightarrow> exc + json list" where
  "load_trades [] fs trades = Inr trades"
| "load_trades (filename # rest) fs trades =
     (if endswith filename ''.json''
      then (case read_json (path_join TRADES_DIR filename) fs of
              Inl e \<Rightarrow> Inl e
            | Inr v \<Rightarrow> load_trades rest fs (trades @ [v]))
      else load_trades rest fs trades)"

definition TradeManager_get_all_trades :: "files \<Rightarrow> exc + json list" where
  "TradeManager_get_all_trades fs = load_trades (listdir TRADES_DIR fs) fs []"

section \<open>The routes\<close>

definition no_json_data :: response where
  "no_json_data =
     \<lparr>status = 400,
      payload = [(''error'', JStr ''No JSON data provided''),
                 (''message'', JStr ''Request body must contain valid JSON'')]\<rparr>"

definition invalid_json_format :: response where
  "invalid_json_format =
     \<lparr>status = 400,
      payload = [(''error'', JStr ''Invalid JSON format''),
                 (''message'', JStr ''Request body must contain valid JSON'')]\<rparr>"

definition internal_server_error :: "exc \<Rightarrow> response" where
  "internal_server_error e =
     \<lparr>status = 500,
      payload = [(''error'', JStr ''Internal server error''),
                 (''message'', JStr (str_exc e))]\<rparr>"

definition trade_not_found :: "string \<Rightarrow> response" where
  "trade_not_found trade_id =
     \<lparr>status = 404,
      payload = [(''error'', JStr ''Trade not found''),
                 (''message'', JStr (''No trade found with ID: '' @ trade_id))]\<rparr>"

text \<open>
  The two \<^verbatim>\<open>except\<close> clauses of \<^verbatim>\<open>create_trade\<close> and \<^verbatim>\<open>update_trade\<close>, in their order:
  \<^verbatim>\<open>json.JSONDecodeError\<close> first, any other \<^verbatim>\<open>Exception\<close> after it.
\<close>

fun except_json_first :: "exc \<Rightarrow> response" where
  "except_json_first (JSONDecodeError m) = invalid_json_format"
| "except_json_first e = internal_server_error e"

definition required_fields :: "string list" where
  "required_fields = [''symbol'', ''quantity'', ''price'', ''side'']"

text \<open>\<^verbatim>\<open>[field for field in required_fields if field not in trade_data]\<close>\<close>

fun missing_of :: "string list \<Rightarrow> json \<Rightarrow> exc + string list" where
  "missing_of [] trade_data = Inr []"
| "missing_of (field # rest) trade_data =
     (case py_contains trade_data field of
        Inl e \<Rightarrow> Inl e
      | Inr present \<Rightarrow>
          (case missing_of rest trade_data of
             Inl e \<Rightarrow> Inl e
           | Inr ms \<Rightarrow> Inr (if \<not> present then field # ms else ms)))"

definition create_trade ::
  "body \<Rightarrow> string \<Rightarrow> string \<Rightarrow> files \<Rightarrow> response \<times> files" where
  "create_trade b uuid4 now fs =
     (case get_json b of
        Inl e \<Rightarrow> (except_json_first e, fs)
      | Inr trade_data \<Rightarrow>
          if \<not> truthy trade_data then (no_json_data, fs)
          else
            (case missing_of required_fields trade_data of
               Inl e \<Rightarrow> (except_json_first e, fs)
             | Inr missing_fields \<Rightarrow>
                 if missing_fields \<noteq> [] then
                   (\<lparr>status = 400,
                     payload = [(''error'', JStr ''Missing required fields''),
                                (''missing_fields'', JArr (map JStr missing_fields)),
                                (''required_fields'', JArr (map JStr required_fields))]\<rparr>,
                    fs)
                 else
                   (case save_trade trade_data uuid4 now fs of
                      Inl e \<Rightarrow> (except_json_first e, fs)
                    | Inr (trade_id, saved, fs') \<Rightarrow>
                        (\<lparr>status = 201,
                          payload = [(''message'', JStr ''Trade created successfully''),
                                     (''trade_id'', trade_id),
                                     (''trade_data'', saved)]\<rparr>,
                         fs'))))"

definition get_trade :: "string \<Rightarrow> files \<Rightarrow> response" where
  "get_trade trade_id fs =
     (case TradeManager_get_trade trade_id fs of
        Inl e \<Rightarrow> internal_server_error e
      | Inr trade_data \<Rightarrow>
          if truthy trade_data then
            \<lparr>status = 200,
             payload = [(''message'', JStr ''Trade found''), (''trade_data'', trade_data)]\<rparr>
          else trade_not_found trade_id)"

definition get_all_trades :: "files \<Rightarrow> response" where
  "get_all_trades fs =
     (case TradeManager_get_all_trades fs of
        Inl e \<Rightarrow> internal_server_error e
      | Inr trades \<Rightarrow>
          \<lparr>status = 200,
           payload = [(''message'', JStr (''Retrieved '' @ str_nat (length trades) @ '' trades'')),
                      (''count'', JNum (int (length trades))),
                      (''trades'', JArr trades)]\<rparr>)"

text \<open>
  \<^verbatim>\<open>update_trade\<close> reads the clock itself (\<open>now\<close>) and \<^verbatim>\<open>save_trade\<close> may read it again
  (\<open>now'\<close>).
\<close>

definition update_trade ::
  "string \<Rightarrow> body \<Rightarrow> string \<Rightarrow> string \<Rightarrow> string \<Rightarrow> files \<Rightarrow> response \<times> files" where
  "update_trade trade_id b now uuid4 now' fs =
     (case TradeManager_get_trade trade_id fs of
        Inl e \<Rightarrow> (except_json_first e, fs)
      | Inr existing_trade \<Rightarrow>
          if \<not> truthy existing_trade then (trade_not_found trade_id, fs)
          else
            (case get_json b of
               Inl e \<Rightarrow> (except_json_first e, fs)
             | Inr trade_data \<Rightarrow>
                 if \<not> truthy trade_data then (no_json_data, fs)
                 else
                   (case py_setitem trade_data ''trade_id'' (JStr trade_id) of
                      Inl e \<Rightarrow> (except_json_first e, fs)
                    | Inr d1 \<Rightarrow>
                        (case py_setitem d1 ''updated_timestamp'' (JStr now) of
                           Inl e \<Rightarrow> (except_json_first e, fs)
                         | Inr d2 \<Rightarrow>
                             (case save_trade d2 uuid4 now' fs of
                                Inl e \<Rightarrow> (except_json_first e, fs)
                              | Inr (saved_id, saved, fs') \<Rightarrow>
                                  (\<lparr>status = 200,
                                    payload = [(''message'', JStr ''Trade updated successfully''),
                                               (''trade_id'', JStr trade_id),
                                               (''trade_data'', saved)]\<rparr>,
                                   fs'))))))"

definition delete_trade :: "string \<Rightarrow> files \<Rightarrow> response \<times> files" where
  "delete_trade trade_id fs =
     (let file_path = path_join TRADES_DIR (trade_id @ ''.json'')
      in if path_exists file_path fs then
           (\<lparr>status = 200,
             payload = [(''message'', JStr ''Trade deleted successfully''),
                        (''trade_id'', JStr trade_id)]\<rparr>,
            remove_file file_path fs)
         else (trade_not_found trade_id, fs))"

section \<open>Sequences of requests\<close>

text \<open>
  A client session is a list of requests served one after the other, each on the files
  the one before left. \<open>run_requests\<close> counts the creations answered 201 and the deletions
  answered 200.
\<close>

datatype request = Create body string string | Delete string

fun run_requests :: "request list \<Rightarrow> files \<Rightarrow> nat \<times> nat \<times> files" where
  "run_requests [] fs = (0, 0, fs)"
| "run_requests (Create b uuid4 now # rs) fs =
     (case create_trade b uuid4 now fs of
        (r, fs') \<Rightarrow>
          (case run_requests rs fs' of
             (n, m, fs'') \<Rightarrow> (if status r = 201 then Suc n else n, m, fs'')))"
| "run_requests (Delete trade_id # rs) fs =
     (case delete_trade trade_id fs of
        (r, fs') \<Rightarrow>
          (case run_requests rs fs' of
             (n, m, fs'') \<Rightarrow> (n, if status r = 200 then Suc m else m, fs'')))"

text \<open>The identifiers the generator hands out along a session, one for each creation.\<close>

fun generated :: "request list \<Rightarrow> string list" where
  "generated [] = []"
| "generated (Create b uuid4 now # rs) = uuid4 # generated rs"
| "generated (Delete trade_id # rs) = generated rs"

text \<open>A creation leaves the choice of identifier to the store: its body names none.\<close>

fun names_no_id :: "request \<Rightarrow> bool" where
  "names_no_id (Create (Json (JObj kvs)) uuid4 now) =
     (case map_of kvs ''trade_id'' of None \<Rightarrow> True | Some v \<Rightarrow> \<not> truthy v)"
| "names_no_id r = True"

text \<open>
  A store as sessions of generated identifiers build it: no path twice, and every unit
  a parsed record under \<^verbatim>\<open>trades/<id>.json\<close> for an identifier without a path
  separator that is not among the identifiers \<open>X\<close> still to be handed out.
\<close>

definition generated_store :: "string set \<Rightarrow> files \<Rightarrow> bool" where
  "generated_store X fs =
     (distinct (map fst fs)
      \<and> (\<forall>(p, c) \<in> set fs.
            \<exists>u v. CHR ''/'' \<notin> set u \<and> u \<notin> X
                  \<and> p = path_join TRADES_DIR (u @ ''.json'') \<and> c = Parsed v))"

text \<open>The names of the units of the container that \<^verbatim>\<open>get_all_trades\<close> opens.\<close>

definition json_units :: "files \<Rightarrow> string list" where
  "json_units fs = filter (\<lambda>n. endswith n ''.json'') (listdir TRADES_DIR fs)"

text \<open>A sample order, as the tests of the repository send it.\<close>

definition sample_trade :: "(string \<times> json) list" where
  "sample_trade =
     [(''symbol'', JStr ''AAPL''), (''quantity'', JNum 100),
      (''price'', JFloat ''150.25''), (''side'', JStr ''BUY'')]"

section \<open>Basic facts\<close>

lemma status_simps [simp]:
  "status no_json_data = 400" "status invalid_json_format = 400"
  "status (internal_server_error e) = 500" "status (trade_not_found i) = 404"
  by (simp_all add: no_json_data_def invalid_json_format_def internal_server_error_def
      trade_not_found_def)

lemma path_exists_write [simp]:
  "path_exists q (put_file p v fs) = (q = p \<or> path_exists q fs)"
  by (simp add: path_exists_def put_file_def update_conv')

lemma path_exists_remove [simp]:
  "path_exists q (remove_file p fs) = (q \<noteq> p \<and> path_exists q fs)"
  by (simp add: path_exists_def remove_file_def delete_conv')

lemma map_of_remove: "map_of (remove_file p fs) = (map_of fs)(p := None)"
  by (simp add: remove_file_def delete_conv')

lemma map_of_write: "map_of (put_file p v fs) = (map_of fs)(p \<mapsto> Parsed v)"
  by (simp add: put_file_def update_conv')

lemma missing_of_obj:
  "missing_of flds (JObj kvs) = Inr (filter (\<lambda>f. f \<notin> fst ` set kvs) flds)"
  by (induction flds) simp_all

lemma save_trade_obj:
  "save_trade (JObj kvs) uuid4 now fs =
     (let tid0 = (case map_of kvs ''trade_id'' of None \<Rightarrow> JNull | Some v \<Rightarrow> v);
          tid = (if truthy tid0 then tid0 else JStr uuid4);
          d1 = (if truthy tid0 then kvs else AList.update ''trade_id'' (JStr uuid4) kvs);
          d2 = (if ''timestamp'' \<in> fst ` set d1 then d1
                else AList.update ''timestamp'' (JStr now) d1);
          p = path_join TRADES_DIR (py_str tid @ ''.json'')
      in if path_exists p fs \<or> can_create p fs then Inr (tid, JObj d2, put_file p (JObj d2) fs)
         else Inl (open_error p fs))"
  by (simp add: save_trade_def Let_def write_json_def)

lemma save_trade_not_obj:
  "(\<forall>kvs. d \<noteq> JObj kvs) \<Longrightarrow> \<exists>e. save_trade d uuid4 now fs = Inl e"
  by (cases d) (simp_all add: save_trade_def)

lemma except_json_first_not_201 [simp]: "status (except_json_first e) \<noteq> 201"
  by (cases e) simp_all

text \<open>What a creation answered 201 has done.\<close>

lemma create_trade_201:
  assumes "create_trade b uuid4 now fs = (r, fs')" and "status r = 201"
  shows "\<exists>tid saved. r = \<lparr>status = 201,
                          payload = [(''message'', JStr ''Trade created successfully''),
                                     (''trade_id'', tid), (''trade_data'', JObj saved)]\<rparr>
                   \<and> saved \<noteq> []
                   \<and> fs' = put_file (path_join TRADES_DIR (py_str tid @ ''.json'')) (JObj saved) fs"
proof (cases b)
  case (Malformed m)
  with assms show ?thesis by (auto simp add: create_trade_def)
next
  case (Json d)
  show ?thesis
  proof (cases "\<exists>kvs. d = JObj kvs")
    case True
    then obtain kvs where "d = JObj kvs" by blast
    with assms Json show ?thesis
      by (auto simp add: create_trade_def missing_of_obj save_trade_obj Let_def
          split: if_splits)
  next
    case False
    then obtain e where "save_trade d uuid4 now fs = Inl e"
      using save_trade_not_obj by blast
    with assms Json show ?thesis
      by (auto simp add: create_trade_def split: if_splits sum.splits)
  qed
qed

lemma keys_write_existing:
  "path_exists p fs \<Longrightarrow> map fst (put_file p v fs) = map fst fs"
  by (auto simp add: put_file_def update_keys path_exists_def map_of_eq_None_iff)

lemma put_file_twice: "put_file p v (put_file p w fs) = put_file p v fs"
  by (simp add: put_file_def)


lemma load_trades_ok:
  "\<forall>n \<in> set ns. endswith n ''.json'' \<longrightarrow> (\<exists>v. map_of fs (path_join TRADES_DIR n) = Some (Parsed v))
   \<Longrightarrow> load_trades ns fs acc =
         Inr (acc @ map (\<lambda>n. case map_of fs (path_join TRADES_DIR n) of
                               Some (Parsed v) \<Rightarrow> v | _ \<Rightarrow> JNull)
                        (filter (\<lambda>n. endswith n ''.json'') ns))"
  by (induction ns arbitrary: acc) (auto simp add: read_json_def)


lemma json_units_simps:
  "json_units [(''trades/b.json'', c)] = [''b.json'']"
  "json_units [(''trades/a.json'', c), (''trades/b.json'', c')] = [''a.json'', ''b.json'']"
  by (simp_all add: json_units_def listdir_def child_name_def List.map_filter_simps Let_def
      TRADES_DIR_def endswith_def)

lemma path_join_plain:
  "CHR ''/'' \<notin> set u \<Longrightarrow> path_join TRADES_DIR (u @ ''.json'') = ''trades/'' @ u @ ''.json''"
  by (cases u) (simp_all add: path_join_def TRADES_DIR_def)

lemma path_join_inj:
  "CHR ''/'' \<notin> set u \<Longrightarrow> CHR ''/'' \<notin> set u'
   \<Longrightarrow> path_join TRADES_DIR (u @ ''.json'') = path_join TRADES_DIR (u' @ ''.json'') \<Longrightarrow> u = u'"
  by (simp add: path_join_plain)

lemma child_name_plain:
  assumes "CHR ''/'' \<notin> set u"
  shows "child_name TRADES_DIR (path_join TRADES_DIR (u @ ''.json'')) = Some (u @ ''.json'')"
proof -
  have "child_name TRADES_DIR (''trades/'' @ u @ ''.json'') = Some (u @ ''.json'')"
    using assms by (simp add: child_name_def TRADES_DIR_def Let_def)
  then show ?thesis by (simp add: path_join_plain [OF assms])
qed

lemma endswith_append [simp]: "endswith (u @ s) s"
  by (simp add: endswith_def)

lemma create_trade_not_201:
  "create_trade b uuid4 now fs = (r, fs') \<Longrightarrow> status r \<noteq> 201 \<Longrightarrow> fs' = fs"
  by (auto simp add: create_trade_def split: sum.splits if_splits prod.splits)

lemma create_trade_201_generated:
  assumes "names_no_id (Create b uuid4 now)"
    and "create_trade b uuid4 now fs = (r, fs')" and "status r = 201"
  shows "\<exists>saved. fs' = put_file (path_join TRADES_DIR (uuid4 @ ''.json'')) (JObj saved) fs"
proof (cases b)
  case (Malformed m)
  with assms show ?thesis by (auto simp add: create_trade_def)
next
  case (Json d)
  show ?thesis
  proof (cases "\<exists>kvs. d = JObj kvs")
    case True
    then obtain kvs where "d = JObj kvs" by blast
    with assms Json show ?thesis
      by (auto simp add: create_trade_def missing_of_obj save_trade_obj Let_def
          split: if_splits option.splits)
  next
    case False
    then obtain e where "save_trade d uuid4 now fs = Inl e"
      using save_trade_not_obj by blast
    with assms Json show ?thesis
      by (auto simp add: create_trade_def split: if_splits sum.splits)
  qed
qed

lemma length_delete_present:
  "distinct (map fst al) \<Longrightarrow> k \<in> fst ` set al \<Longrightarrow> Suc (length (AList.delete k al)) = length al"
  by (induction al) (auto simp add: rev_image_eqI)

lemma update_absent: "k \<notin> fst ` set al \<Longrightarrow> AList.update k v al = al @ [(k, v)]"
  by (induction al) auto

lemma generated_store_fresh:
  assumes "generated_store X fs" and "u \<in> X" and "CHR ''/'' \<notin> set u"
  shows "path_join TRADES_DIR (u @ ''.json'') \<notin> fst ` set fs"
proof
  assume "path_join TRADES_DIR (u @ ''.json'') \<in> fst ` set fs"
  then obtain c where "(path_join TRADES_DIR (u @ ''.json''), c) \<in> set fs" by auto
  with assms(1) obtain u' where "CHR ''/'' \<notin> set u'" "u' \<notin> X"
    "path_join TRADES_DIR (u @ ''.json'') = path_join TRADES_DIR (u' @ ''.json'')"
    by (auto simp add: generated_store_def)
  with assms(3) have "u = u'" by (auto dest: path_join_inj)
  with \<open>u' \<notin> X\<close> assms(2) show False by simp
qed

lemma generated_store_create:
  assumes "generated_store (insert u X) fs" and "u \<notin> X" and "CHR ''/'' \<notin> set u"
  shows "generated_store X (put_file (path_join TRADES_DIR (u @ ''.json'')) v fs)"
    and "length (put_file (path_join TRADES_DIR (u @ ''.json'')) v fs) = Suc (length fs)"
proof -
  from generated_store_fresh [OF assms(1) _ assms(3)]
  have fresh: "path_join TRADES_DIR (u @ ''.json'') \<notin> fst ` set fs" by simp
  then have w: "put_file (path_join TRADES_DIR (u @ ''.json'')) v fs
      = fs @ [(path_join TRADES_DIR (u @ ''.json''), Parsed v)]"
    by (simp add: put_file_def update_absent)
  show "length (put_file (path_join TRADES_DIR (u @ ''.json'')) v fs) = Suc (length fs)"
    by (simp add: w)
  show "generated_store X (put_file (path_join TRADES_DIR (u @ ''.json'')) v fs)"
    using assms fresh unfolding w generated_store_def by fastforce
qed

lemma generated_store_remove:
  assumes "generated_store X fs"
  shows "generated_store X (remove_file p fs)"
    and "path_exists p fs \<Longrightarrow> Suc (length (remove_file p fs)) = length fs"
proof -
  have d: "distinct (map fst (AList.delete p fs))"
    using assms by (simp add: generated_store_def distinct_delete)
  have "set (AList.delete p fs) \<subseteq> set fs"
    by (auto simp add: AList.delete_eq)
  with assms d show "generated_store X (remove_file p fs)"
    unfolding generated_store_def remove_file_def by fastforce
  show "path_exists p fs \<Longrightarrow> Suc (length (remove_file p fs)) = length fs"
    using assms
    by (simp add: generated_store_def remove_file_def path_exists_def map_of_eq_None_iff
        length_delete_present)
qed

lemma generated_store_mono: "generated_store X fs \<Longrightarrow> Y \<subseteq> X \<Longrightarrow> generated_store Y fs"
  unfolding generated_store_def by fastforce

lemma run_requests_generated:
  assumes "\<forall>r \<in> set rs. names_no_id r" and "distinct (generated rs)"
    and "\<forall>u \<in> set (generated rs). CHR ''/'' \<notin> set u"
    and "generated_store (set (generated rs)) fs"
    and "run_requests rs fs = (n, m, fs')"
  shows "generated_store {} fs' \<and> length fs' + m = length fs + n"
  using assms
proof (induction rs arbitrary: fs n m fs')
  case Nil
  then show ?case by simp
next
  case (Cons r rs)
  show ?case
  proof (cases r)
    case (Create b u t)
    obtain rsp fs1 where c: "create_trade b u t fs = (rsp, fs1)" by (cases "create_trade b u t fs")
    obtain n1 m1 fs2 where rr: "run_requests rs fs1 = (n1, m1, fs2)"
      by (cases "run_requests rs fs1") auto
    from Cons.prems(5) Create c rr
    have res: "n = (if status rsp = 201 then Suc n1 else n1)" "m = m1" "fs' = fs2" by simp_all
    from Cons.prems Create have pre: "\<forall>r \<in> set rs. names_no_id r" "distinct (generated rs)"
      "\<forall>u \<in> set (generated rs). CHR ''/'' \<notin> set u" "u \<notin> set (generated rs)"
      "CHR ''/'' \<notin> set u" "names_no_id (Create b u t)"
      "generated_store (insert u (set (generated rs))) fs" by simp_all
    show ?thesis
    proof (cases "status rsp = 201")
      case True
      from create_trade_201_generated [OF pre(6) c True] obtain saved where
        fs1: "fs1 = put_file (path_join TRADES_DIR (u @ ''.json'')) (JObj saved) fs" by blast
      from generated_store_create [OF pre(7) pre(4) pre(5), of "JObj saved"] fs1
      have "generated_store (set (generated rs)) fs1" "length fs1 = Suc (length fs)" by simp_all
      with Cons.IH [OF pre(1-3) _ rr] res True show ?thesis by simp
    next
      case False
      from create_trade_not_201 [OF c False] have "fs1 = fs" .
      moreover from pre(7) have "generated_store (set (generated rs)) fs"
        by (rule generated_store_mono) auto
      ultimately show ?thesis using Cons.IH [OF pre(1-3) _ rr] res False by simp
    qed
  next
    case (Delete i)
    obtain rsp fs1 where d: "delete_trade i fs = (rsp, fs1)" by (cases "delete_trade i fs")
    obtain n1 m1 fs2 where rr: "run_requests rs fs1 = (n1, m1, fs2)"
      by (cases "run_requests rs fs1") auto
    from Cons.prems(5) Delete d rr
    have res: "n = n1" "m = (if status rsp = 200 then Suc m1 else m1)" "fs' = fs2" by simp_all
    from Cons.prems Delete have pre: "\<forall>r \<in> set rs. names_no_id r" "distinct (generated rs)"
      "\<forall>u \<in> set (generated rs). CHR ''/'' \<notin> set u"
      "generated_store (set (generated rs)) fs" by simp_all
    show ?thesis
    proof (cases "path_exists (path_join TRADES_DIR (i @ ''.json'')) fs")
      case True
      with d have "status rsp = 200" "fs1 = remove_file (path_join TRADES_DIR (i @ ''.json'')) fs"
        by (auto simp add: delete_trade_def Let_def)
      with generated_store_remove [OF pre(4), of "path_join TRADES_DIR (i @ ''.json'')"] True
      have "generated_store (set (generated rs)) fs1" "Suc (length fs1) = length fs" by simp_all
      with Cons.IH [OF pre(1-3) _ rr] res \<open>status rsp = 200\<close> show ?thesis by simp
    next
      case False
      with d have "status rsp = 404" "fs1 = fs" by (auto simp add: delete_trade_def Let_def)
      with Cons.IH [OF pre(1-3) _ rr] pre(4) res show ?thesis by simp
    qed
  qed
qed

lemma get_all_trades_count:
  assumes "\<forall>k \<in> set (json_units fs). \<exists>v. map_of fs (path_join TRADES_DIR k) = Some (Parsed v)"
  shows "status (get_all_trades fs) = 200
         \<and> map_of (payload (get_all_trades fs)) ''count''
             = Some (JNum (int (length (json_units fs))))"
proof -
  from assms have "\<forall>k \<in> set (listdir TRADES_DIR fs). endswith k ''.json''
      \<longrightarrow> (\<exists>v. map_of fs (path_join TRADES_DIR k) = Some (Parsed v))"
    by (simp add: json_units_def)
  from load_trades_ok [OF this, of "[]"] show ?thesis
    by (simp add: get_all_trades_def TradeManager_get_all_trades_def json_units_def)
qed

lemma json_units_Cons:
  "json_units ((p, c) # fs) =
     (case child_name TRADES_DIR p of
        None \<Rightarrow> json_units fs
      | Some k \<Rightarrow> if endswith k ''.json'' then k # json_units fs else json_units fs)"
  by (simp add: json_units_def listdir_def List.map_filter_simps split: option.splits)

lemma json_units_Nil [simp]: "json_units [] = []"
  by (simp add: json_units_def listdir_def List.map_filter_simps)

lemma json_units_generated:
  assumes "\<forall>(p, c) \<in> set fs. \<exists>u v. CHR ''/'' \<notin> set u
              \<and> p = path_join TRADES_DIR (u @ ''.json'') \<and> c = Parsed v"
  shows "length (json_units fs) = length fs
         \<and> (\<forall>k \<in> set (json_units fs). path_join TRADES_DIR k \<in> fst ` set fs)"
  using assms
proof (induction fs)
  case Nil
  then show ?case by simp
next
  case (Cons pc fs)
  obtain p c where pc: "pc = (p, c)" by (cases pc)
  with Cons.prems obtain u where u: "CHR ''/'' \<notin> set u" "p = path_join TRADES_DIR (u @ ''.json'')"
    by auto
  from Cons.prems have "\<forall>(p, c) \<in> set fs. \<exists>u v. CHR ''/'' \<notin> set u
              \<and> p = path_join TRADES_DIR (u @ ''.json'') \<and> c = Parsed v" by simp
  from Cons.IH [OF this] u pc show ?case
    by (auto simp add: json_units_Cons child_name_plain)
qed

lemma generated_store_count:
  assumes "generated_store X fs"
  shows "status (get_all_trades fs) = 200
         \<and> map_of (payload (get_all_trades fs)) ''count'' = Some (JNum (int (length fs)))"
proof -
  from assms have e: "\<forall>(p, c) \<in> set fs. \<exists>u v. CHR ''/'' \<notin> set u
              \<and> p = path_join TRADES_DIR (u @ ''.json'') \<and> c = Parsed v"
    unfolding generated_store_def by fastforce
  from json_units_generated [OF e]
  have len: "length (json_units fs) = length fs"
    and keys: "\<forall>k \<in> set (json_units fs). path_join TRADES_DIR k \<in> fst ` set fs" by simp_all
  have "\<forall>k \<in> set (json_units fs). \<exists>v. map_of fs (path_join TRADES_DIR k) = Some (Parsed v)"
  proof
    fix k assume "k \<in> set (json_units fs)"
    with keys have "path_join TRADES_DIR k \<in> fst ` set fs" by simp
    then obtain c where c: "map_of fs (path_join TRADES_DIR k) = Some c"
      by (cases "map_of fs (path_join TRADES_DIR k)") (auto simp add: map_of_eq_None_iff)
    then have "(path_join TRADES_DIR k, c) \<in> set fs" by (rule map_of_SomeD)
    with e obtain v where "c = Parsed v" by auto
    with c show "\<exists>v. map_of fs (path_join TRADES_DIR k) = Some (Parsed v)" by simp
  qed
  from get_all_trades_count [OF this] len show ?thesis by simp
qed

lemma length_json_units:
  "length (json_units fs) =
     length (filter (\<lambda>p. \<exists>k. child_name TRADES_DIR p = Some k \<and> endswith k ''.json'')
               (map fst fs))"
  by (induction fs) (auto simp add: json_units_Cons split: option.splits)

lemma length_json_units_card:
  assumes "distinct (map fst fs)"
  shows "length (json_units fs) =
           card {p \<in> fst ` set fs. \<exists>k. child_name TRADES_DIR p = Some k \<and> endswith k ''.json''}"
proof -
  have "distinct (filter (\<lambda>p. \<exists>k. child_name TRADES_DIR p = Some k \<and> endswith k ''.json'')
               (map fst fs))"
    using assms by (rule distinct_filter)
  from distinct_card [OF this] show ?thesis
    by (simp add: length_json_units)
qed

section \<open>Creation\<close>

text \<open>
  C3, as the code has it. For every creation input that is a non-empty JSON object
  lacking one or more of the four required fields, Create answers 400 with a
  \<^verbatim>\<open>missing_fields\<close> array that lists exactly the absent required fields, in the order of
  the required list, and leaves the files as they were.
\<close>

theorem create_trade_missing_fields:
  assumes "kvs \<noteq> []" and "\<exists>f \<in> set required_fields. f \<notin> fst ` set kvs"
  shows "create_trade (Json (JObj kvs)) uuid4 now fs =
           (\<lparr>status = 400,
             payload = [(''error'', JStr ''Missing required fields''),
                        (''missing_fields'',
                         JArr (map JStr (filter (\<lambda>f. f \<notin> fst ` set kvs) required_fields))),
                        (''required_fields'', JArr (map JStr required_fields))]\<rparr>,
            fs)"
  using assms by (auto simp add: create_trade_def missing_of_obj filter_empty_conv)

theorem create_trade_missing_fields_witness:
  "[(''symbol'', JStr ''AAPL'')] \<noteq> []
   \<and> (\<exists>f \<in> set required_fields. f \<notin> fst ` set [(''symbol'', JStr ''AAPL'')])
   \<and> create_trade (Json (JObj [(''symbol'', JStr ''AAPL'')])) ''u1'' ''t0'' [] =
           (\<lparr>status = 400,
             payload = [(''error'', JStr ''Missing required fields''),
                        (''missing_fields'',
                         JArr [JStr ''quantity'', JStr ''price'', JStr ''side'']),
                        (''required_fields'',
                         JArr [JStr ''symbol'', JStr ''quantity'', JStr ''price'',
                               JStr ''side''])]\<rparr>,
            [])"
  using create_trade_missing_fields [of "[(''symbol'', JStr ''AAPL'')]" "''u1''" "''t0''" "[]"]
  by (simp add: required_fields_def)

text \<open>
  The empty object lacks all four required fields, and its 400 carries no
  \<^verbatim>\<open>missing_fields\<close> array: the emptiness test comes first.
\<close>

theorem create_trade_empty_object_no_missing_fields:
  "status (fst (create_trade (Json (JObj [])) ''u1'' ''t0'' [])) = 400
   \<and> py_contains (JObj []) ''symbol'' = Inr False
   \<and> map_of (payload (fst (create_trade (Json (JObj [])) ''u1'' ''t0'' []))) ''missing_fields''
       = None"
  by (simp add: create_trade_def no_json_data_def)

text \<open>
  C5, evaluated on the code. A body that does not parse makes \<^verbatim>\<open>get_json\<close> raise
  \<^verbatim>\<open>BadRequest\<close>, which the clause for \<^verbatim>\<open>json.JSONDecodeError\<close> does not catch and the
  clause for \<^verbatim>\<open>Exception\<close> does: the answer is 500.
\<close>

theorem create_trade_malformed_500:
  "create_trade (Malformed m) uuid4 now fs = (internal_server_error (BadRequest m), fs)
   \<and> status (fst (create_trade (Malformed m) uuid4 now fs)) = 500"
  by (simp add: create_trade_def)




section \<open>Update and deletion of identifiers\<close>

text \<open>
  C9. An Update whose identifier names no stored unit is answered 404 and leaves the
  files as they were, whatever the body is: the body is not read before the answer.
\<close>

theorem update_trade_unknown_id:
  assumes "\<not> path_exists (path_join TRADES_DIR (trade_id @ ''.json'')) fs"
  shows "update_trade trade_id b now uuid4 now' fs = (trade_not_found trade_id, fs)
         \<and> status (fst (update_trade trade_id b now uuid4 now' fs)) = 404"
  using assms by (simp add: update_trade_def TradeManager_get_trade_def)

theorem update_trade_unknown_id_witness:
  "\<not> path_exists (path_join TRADES_DIR (''nope'' @ ''.json'')) []
   \<and> update_trade ''nope'' (Malformed ''x'') ''t1'' ''u'' ''t2'' [] = (trade_not_found ''nope'', [])
   \<and> update_trade ''nope'' (Json (JObj [(''quantity'', JNum 200)])) ''t1'' ''u'' ''t2'' []
       = (trade_not_found ''nope'', [])"
  using update_trade_unknown_id [of "''nope''" "[]" "Malformed ''x''" "''t1''" "''u''" "''t2''"]
        update_trade_unknown_id
          [of "''nope''" "[]" "Json (JObj [(''quantity'', JNum 200)])" "''t1''" "''u''" "''t2''"]
  by (simp add: path_exists_def)

text \<open>
  C7. Deleting an identifier that names a stored unit is answered 200 and removes that
  unit and no other; after it, Get-one on the identifier is answered 404, and a second
  Delete is answered 404 and changes nothing.
\<close>

theorem delete_then_not_found:
  assumes "path_exists (path_join TRADES_DIR (trade_id @ ''.json'')) fs"
  shows "status (fst (delete_trade trade_id fs)) = 200
         \<and> \<not> path_exists (path_join TRADES_DIR (trade_id @ ''.json''))
               (snd (delete_trade trade_id fs))
         \<and> (\<forall>q. q \<noteq> path_join TRADES_DIR (trade_id @ ''.json'')
                \<longrightarrow> map_of (snd (delete_trade trade_id fs)) q = map_of fs q)
         \<and> status (get_trade trade_id (snd (delete_trade trade_id fs))) = 404
         \<and> status (fst (delete_trade trade_id (snd (delete_trade trade_id fs)))) = 404
         \<and> snd (delete_trade trade_id (snd (delete_trade trade_id fs)))
             = snd (delete_trade trade_id fs)"
  using assms
  by (simp add: delete_trade_def get_trade_def TradeManager_get_trade_def Let_def map_of_remove)

theorem delete_then_not_found_witness:
  "path_exists (path_join TRADES_DIR (''x'' @ ''.json''))
     [(''trades/x.json'', Parsed (JObj [(''trade_id'', JStr ''x'')]))]
   \<and> delete_trade ''x'' [(''trades/x.json'', Parsed (JObj [(''trade_id'', JStr ''x'')]))]
       = (\<lparr>status = 200,
           payload = [(''message'', JStr ''Trade deleted successfully''),
                      (''trade_id'', JStr ''x'')]\<rparr>, [])
   \<and> status (get_trade ''x'' []) = 404
   \<and> status (fst (delete_trade ''x'' [])) = 404"
  using delete_then_not_found
          [of "''x''" "[(''trades/x.json'', Parsed (JObj [(''trade_id'', JStr ''x'')]))]"]
  by (simp add: path_exists_def path_join_def TRADES_DIR_def delete_trade_def remove_file_def)

section \<open>Saving and replacing a record\<close>

text \<open>
  C8. Saving a record whose \<^verbatim>\<open>trade_id\<close> names a stored unit overwrites that unit with
  the record (a \<^verbatim>\<open>timestamp\<close> added when it has none), leaves every other unit and the
  set of units as they were, and saving the record again, as the first call left it,
  changes nothing.
\<close>

theorem save_trade_overwrites:
  assumes "map_of kvs ''trade_id'' = Some tid" and "truthy tid"
    and "path_exists (path_join TRADES_DIR (py_str tid @ ''.json'')) fs"
  shows "\<exists>saved fs'.
           save_trade (JObj kvs) uuid4 now fs = Inr (tid, JObj saved, fs')
           \<and> map_of fs' = (map_of fs)(path_join TRADES_DIR (py_str tid @ ''.json'') \<mapsto> Parsed (JObj saved))
           \<and> map fst fs' = map fst fs
           \<and> (\<forall>k. k \<noteq> ''timestamp'' \<longrightarrow> map_of saved k = map_of kvs k)
           \<and> save_trade (JObj saved) uuid4' now' fs' = Inr (tid, JObj saved, fs')"
  using assms
  by (auto simp add: save_trade_obj Let_def map_of_write keys_write_existing put_file_twice
      update_conv' dom_update)

theorem save_trade_overwrites_witness:
  "map_of [(''trade_id'', JStr ''x''), (''quantity'', JNum 5)] ''trade_id'' = Some (JStr ''x'')
   \<and> truthy (JStr ''x'')
   \<and> path_exists (path_join TRADES_DIR (py_str (JStr ''x'') @ ''.json''))
        [(''trades/x.json'', Parsed (JObj [(''trade_id'', JStr ''x'')]))]
   \<and> save_trade (JObj [(''trade_id'', JStr ''x''), (''quantity'', JNum 5)]) ''u1'' ''t1''
        [(''trades/x.json'', Parsed (JObj [(''trade_id'', JStr ''x'')]))]
      = Inr (JStr ''x'',
             JObj [(''trade_id'', JStr ''x''), (''quantity'', JNum 5), (''timestamp'', JStr ''t1'')],
             [(''trades/x.json'',
               Parsed (JObj [(''trade_id'', JStr ''x''), (''quantity'', JNum 5),
                             (''timestamp'', JStr ''t1'')]))])
   \<and> (\<exists>saved fs'.
           save_trade (JObj [(''trade_id'', JStr ''x''), (''quantity'', JNum 5)]) ''u1'' ''t1''
             [(''trades/x.json'', Parsed (JObj [(''trade_id'', JStr ''x'')]))]
             = Inr (JStr ''x'', JObj saved, fs')
           \<and> map fst fs' = [''trades/x.json'']
           \<and> save_trade (JObj saved) ''u2'' ''t2'' fs' = Inr (JStr ''x'', JObj saved, fs'))"
proof -
  have h1: "map_of [(''trade_id'', JStr ''x''), (''quantity'', JNum 5)] ''trade_id''
              = Some (JStr ''x'')"
    by simp
  have h2: "truthy (JStr ''x'')" by simp
  have h3: "path_exists (path_join TRADES_DIR (py_str (JStr ''x'') @ ''.json''))
              [(''trades/x.json'', Parsed (JObj [(''trade_id'', JStr ''x'')]))]"
    by (simp add: path_exists_def path_join_def TRADES_DIR_def)
  have e: "save_trade (JObj [(''trade_id'', JStr ''x''), (''quantity'', JNum 5)]) ''u1'' ''t1''
        [(''trades/x.json'', Parsed (JObj [(''trade_id'', JStr ''x'')]))]
      = Inr (JStr ''x'',
             JObj [(''trade_id'', JStr ''x''), (''quantity'', JNum 5), (''timestamp'', JStr ''t1'')],
             [(''trades/x.json'',
               Parsed (JObj [(''trade_id'', JStr ''x''), (''quantity'', JNum 5),
                             (''timestamp'', JStr ''t1'')]))])"
    by (simp add: save_trade_obj Let_def path_join_def TRADES_DIR_def put_file_def
      can_create_def is_dir_def parent_dir_def base_name_def path_exists_def)
  from save_trade_overwrites [OF h1 h2 h3, of "''u1''" "''t1''" "''u2''" "''t2''"]
  have x: "\<exists>saved fs'.
           save_trade (JObj [(''trade_id'', JStr ''x''), (''quantity'', JNum 5)]) ''u1'' ''t1''
             [(''trades/x.json'', Parsed (JObj [(''trade_id'', JStr ''x'')]))]
             = Inr (JStr ''x'', JObj saved, fs')
           \<and> map fst fs' = [''trades/x.json'']
           \<and> save_trade (JObj saved) ''u2'' ''t2'' fs' = Inr (JStr ''x'', JObj saved, fs')"
    by auto
  show ?thesis by (intro conjI h1 h2 h3 e x)
qed

text \<open>
  C1, as the code has it. After a record is created from body \<open>b\<close> and then updated,
  under its non-empty identifier, with a non-empty JSON object \<open>u\<close>, Get-one returns
  exactly the fields of \<open>u\<close> with \<^verbatim>\<open>trade_id\<close> forced to the path identifier,
  \<^verbatim>\<open>updated_timestamp\<close> set to the time of the update and, when \<open>u\<close> has no
  \<^verbatim>\<open>timestamp\<close>, a \<^verbatim>\<open>timestamp\<close> that \<^verbatim>\<open>save_trade\<close> sets anew at the update; no
  other field of \<open>b\<close> survives.
\<close>

theorem update_replaces_record:
  assumes "create_trade (Json (JObj b)) uuid0 t0 fs0 = (r1, fs1)" and "status r1 = 201"
    and "map_of (payload r1) ''trade_id'' = Some tid" and "py_str tid = trade_id"
    and "trade_id \<noteq> []" and "u \<noteq> []"
  shows "\<exists>r2 fs2 rec.
           update_trade trade_id (Json (JObj u)) now uuid4 now' fs1 = (r2, fs2)
           \<and> status r2 = 200
           \<and> get_trade trade_id fs2 =
               \<lparr>status = 200,
                payload = [(''message'', JStr ''Trade found''), (''trade_data'', JObj rec)]\<rparr>
           \<and> map_of rec =
               (\<lambda>k. if k = ''trade_id'' then Some (JStr trade_id)
                    else if k = ''updated_timestamp'' then Some (JStr now)
                    else if k = ''timestamp'' \<and> map_of u ''timestamp'' = None
                         then Some (JStr now')
                    else map_of u k)"
proof -
  from create_trade_201 [OF assms(1,2)] obtain tid' saved where
    r1: "r1 = \<lparr>status = 201,
               payload = [(''message'', JStr ''Trade created successfully''),
                          (''trade_id'', tid'), (''trade_data'', JObj saved)]\<rparr>"
    and saved: "saved \<noteq> []"
    and fs1: "fs1 = put_file (path_join TRADES_DIR (py_str tid' @ ''.json'')) (JObj saved) fs0"
    by blast
  from r1 assms(3) have "tid' = tid" by simp
  with fs1 assms(4) have fs1':
    "fs1 = put_file (path_join TRADES_DIR (trade_id @ ''.json'')) (JObj saved) fs0" by simp
  have existing: "TradeManager_get_trade trade_id fs1 = Inr (JObj saved)"
    by (simp add: TradeManager_get_trade_def fs1' read_json_def map_of_write)
  show ?thesis
    using existing saved assms(5,6)
    by (auto simp add: update_trade_def save_trade_obj Let_def get_trade_def
        TradeManager_get_trade_def read_json_def map_of_write update_conv' dom_update
        map_of_eq_None_iff fun_eq_iff)
qed

theorem update_replaces_record_witness:
  "create_trade (Json (JObj sample_trade)) ''u1'' ''t0'' [] =
     (\<lparr>status = 201,
       payload = [(''message'', JStr ''Trade created successfully''),
                  (''trade_id'', JStr ''u1''),
                  (''trade_data'', JObj (sample_trade @ [(''trade_id'', JStr ''u1''), (''timestamp'', JStr ''t0'')]))]\<rparr>,
      [(''trades/u1.json'', Parsed (JObj (sample_trade @ [(''trade_id'', JStr ''u1''), (''timestamp'', JStr ''t0'')])))])
   \<and> (\<exists>r2 fs2 rec.
           update_trade ''u1'' (Json (JObj [(''quantity'', JNum 200)])) ''t1'' ''u2'' ''t2''
             [(''trades/u1.json'', Parsed (JObj (sample_trade @ [(''trade_id'', JStr ''u1''), (''timestamp'', JStr ''t0'')])))]
             = (r2, fs2)
           \<and> status r2 = 200
           \<and> get_trade ''u1'' fs2 =
               \<lparr>status = 200,
                payload = [(''message'', JStr ''Trade found''), (''trade_data'', JObj rec)]\<rparr>
           \<and> map_of rec ''quantity'' = Some (JNum 200)
           \<and> map_of rec ''symbol'' = None
           \<and> map_of rec ''timestamp'' = Some (JStr ''t2''))"
proof -
  have c: "create_trade (Json (JObj sample_trade)) ''u1'' ''t0'' [] =
     (\<lparr>status = 201,
       payload = [(''message'', JStr ''Trade created successfully''),
                  (''trade_id'', JStr ''u1''),
                  (''trade_data'', JObj (sample_trade @ [(''trade_id'', JStr ''u1''), (''timestamp'', JStr ''t0'')]))]\<rparr>,
      [(''trades/u1.json'', Parsed (JObj (sample_trade @ [(''trade_id'', JStr ''u1''), (''timestamp'', JStr ''t0'')])))])"
    by (simp add: create_trade_def save_trade_obj sample_trade_def required_fields_def
        missing_of_obj Let_def path_join_def TRADES_DIR_def put_file_def
      can_create_def is_dir_def parent_dir_def base_name_def path_exists_def)
  from update_replaces_record [OF c, of "JStr ''u1''" "''u1''" "[(''quantity'', JNum 200)]" "''t1''" "''u2''" "''t2''"]
  show ?thesis using c by auto
qed

text \<open>
  A record created at \<open>t0\<close> and updated with a body that has no \<^verbatim>\<open>timestamp\<close> comes
  back with a \<^verbatim>\<open>timestamp\<close> field all the same, holding the time of the update.
\<close>

theorem update_regenerates_timestamp:
  "create_trade (Json (JObj sample_trade)) ''u1'' ''t0'' [] =
     (\<lparr>status = 201,
       payload = [(''message'', JStr ''Trade created successfully''),
                  (''trade_id'', JStr ''u1''),
                  (''trade_data'', JObj (sample_trade @ [(''trade_id'', JStr ''u1''), (''timestamp'', JStr ''t0'')]))]\<rparr>,
      [(''trades/u1.json'', Parsed (JObj (sample_trade @ [(''trade_id'', JStr ''u1''), (''timestamp'', JStr ''t0'')])))])
   \<and> status (fst (update_trade ''u1'' (Json (JObj [(''quantity'', JNum 200)])) ''t1'' ''u2'' ''t2''
        [(''trades/u1.json'', Parsed (JObj (sample_trade @ [(''trade_id'', JStr ''u1''), (''timestamp'', JStr ''t0'')])))])) = 200
   \<and> get_trade ''u1'' (snd (update_trade ''u1'' (Json (JObj [(''quantity'', JNum 200)])) ''t1'' ''u2'' ''t2''
        [(''trades/u1.json'', Parsed (JObj (sample_trade @ [(''trade_id'', JStr ''u1''), (''timestamp'', JStr ''t0'')])))]))
      = \<lparr>status = 200,
         payload = [(''message'', JStr ''Trade found''),
                    (''trade_data'',
                     JObj [(''quantity'', JNum 200), (''trade_id'', JStr ''u1''),
                           (''updated_timestamp'', JStr ''t1''), (''timestamp'', JStr ''t2'')])]\<rparr>"
  by (simp add: create_trade_def update_trade_def get_trade_def TradeManager_get_trade_def
      save_trade_obj sample_trade_def required_fields_def missing_of_obj Let_def
      path_join_def TRADES_DIR_def put_file_def
      can_create_def is_dir_def parent_dir_def base_name_def path_exists_def read_json_def)

section \<open>Creation followed by retrieval\<close>




section \<open>Listing\<close>




section \<open>Counting\<close>

text \<open>
  C6, as the code has it. Starting from the empty store, after any sequence of Create and
  Delete requests in which no creation body names a \<^verbatim>\<open>trade_id\<close> of its own and the
  generator hands out pairwise distinct identifiers without a path separator, Get-all
  answers 200 with a count equal to the number of creations answered 201 minus the number
  of deletions answered 200. And in every store whose paths are distinct and whose
  \<^verbatim>\<open>.json\<close> units all parse, the count of Get-all is the number of \<^verbatim>\<open>.json\<close> units in
  the container.
\<close>

theorem get_all_count:
  "((\<forall>r \<in> set rs. names_no_id r) \<and> distinct (generated rs)
      \<and> (\<forall>u \<in> set (generated rs). CHR ''/'' \<notin> set u)
      \<and> run_requests rs [] = (n, m, fs)
     \<longrightarrow> m \<le> n \<and> status (get_all_trades fs) = 200
         \<and> map_of (payload (get_all_trades fs)) ''count'' = Some (JNum (int (n - m))))
   \<and> (distinct (map fst fs')
       \<and> (\<forall>k \<in> set (json_units fs'). \<exists>v. map_of fs' (path_join TRADES_DIR k) = Some (Parsed v))
     \<longrightarrow> status (get_all_trades fs') = 200
         \<and> map_of (payload (get_all_trades fs')) ''count''
             = Some (JNum (int (card {p \<in> fst ` set fs'.
                   \<exists>k. child_name TRADES_DIR p = Some k \<and> endswith k ''.json''}))))"
proof (intro conjI impI)
  assume a: "(\<forall>r \<in> set rs. names_no_id r) \<and> distinct (generated rs)
      \<and> (\<forall>u \<in> set (generated rs). CHR ''/'' \<notin> set u)
      \<and> run_requests rs [] = (n, m, fs)"
  have "generated_store (set (generated rs)) []" by (simp add: generated_store_def)
  with a have g: "generated_store {} fs" and l: "length fs + m = n"
    using run_requests_generated [of rs "[]" n m fs] by simp_all
  from l show "m \<le> n" by simp
  from l have "length fs = n - m" by simp
  with generated_store_count [OF g]
  show "status (get_all_trades fs) = 200"
    and "map_of (payload (get_all_trades fs)) ''count'' = Some (JNum (int (n - m)))"
    by simp_all
next
  assume b: "distinct (map fst fs')
       \<and> (\<forall>k \<in> set (json_units fs'). \<exists>v. map_of fs' (path_join TRADES_DIR k) = Some (Parsed v))"
  then have p: "\<forall>k \<in> set (json_units fs'). \<exists>v. map_of fs' (path_join TRADES_DIR k) = Some (Parsed v)"
    by (rule conjunct2)
  from b have d: "distinct (map fst fs')" by (rule conjunct1)
  from get_all_trades_count [OF p] length_json_units_card [OF d]
  show "status (get_all_trades fs') = 200"
    and "map_of (payload (get_all_trades fs')) ''count''
             = Some (JNum (int (card {p \<in> fst ` set fs'.
                   \<exists>k. child_name TRADES_DIR p = Some k \<and> endswith k ''.json''})))"
    by simp_all
qed

theorem get_all_count_witness:
  "run_requests
     [Create (Json (JObj sample_trade)) ''u1'' ''t0'',
      Create (Json (JObj sample_trade)) ''u2'' ''t1'',
      Delete ''u1''] []
     = (2, 1,
        [(''trades/u2.json'',
          Parsed (JObj (sample_trade @ [(''trade_id'', JStr ''u2''), (''timestamp'', JStr ''t1'')])))])
   \<and> distinct (generated
        [Create (Json (JObj sample_trade)) ''u1'' ''t0'',
         Create (Json (JObj sample_trade)) ''u2'' ''t1'',
         Delete ''u1''])
   \<and> status (get_all_trades
        [(''trades/u2.json'',
          Parsed (JObj (sample_trade @ [(''trade_id'', JStr ''u2''), (''timestamp'', JStr ''t1'')])))])
       = 200
   \<and> map_of (payload (get_all_trades
        [(''trades/u2.json'',
          Parsed (JObj (sample_trade @ [(''trade_id'', JStr ''u2''), (''timestamp'', JStr ''t1'')])))]))
        ''count'' = Some (JNum 1)
   \<and> distinct (map fst [(''trades/b.json'', Parsed (JObj sample_trade))])
   \<and> map_of (payload (get_all_trades [(''trades/b.json'', Parsed (JObj sample_trade))])) ''count''
       = Some (JNum (int (card {p \<in> fst ` set [(''trades/b.json'', Parsed (JObj sample_trade))].
                   \<exists>k. child_name TRADES_DIR p = Some k \<and> endswith k ''.json''})))"
proof -
  let ?rs = "[Create (Json (JObj sample_trade)) ''u1'' ''t0'',
      Create (Json (JObj sample_trade)) ''u2'' ''t1'',
      Delete ''u1'']"
  let ?fs = "[(''trades/u2.json'',
          Parsed (JObj (sample_trade @ [(''trade_id'', JStr ''u2''), (''timestamp'', JStr ''t1'')])))]"
  let ?fb = "[(''trades/b.json'', Parsed (JObj sample_trade))]"
  have r: "run_requests ?rs [] = (2, 1, ?fs)"
    by (simp add: create_trade_def delete_trade_def save_trade_obj sample_trade_def
        required_fields_def missing_of_obj Let_def path_join_def TRADES_DIR_def put_file_def
      can_create_def is_dir_def parent_dir_def base_name_def path_exists_def
        remove_file_def)
  have h1: "\<forall>r \<in> set ?rs. names_no_id r" by (simp add: sample_trade_def)
  have h2: "distinct (generated ?rs)" by simp
  have h3: "\<forall>u \<in> set (generated ?rs). CHR ''/'' \<notin> set u" by simp
  have h4: "distinct (map fst ?fb)" by simp
  have h5: "\<forall>k \<in> set (json_units ?fb). \<exists>v. map_of ?fb (path_join TRADES_DIR k) = Some (Parsed v)"
    by (simp add: json_units_simps path_join_def TRADES_DIR_def)
  from get_all_count [of ?rs 2 1 ?fs ?fb] h1 h2 h3 r h4 h5
  have c: "status (get_all_trades ?fs) = 200"
      "map_of (payload (get_all_trades ?fs)) ''count'' = Some (JNum 1)"
      "map_of (payload (get_all_trades ?fb)) ''count''
       = Some (JNum (int (card {p \<in> fst ` set ?fb.
                   \<exists>k. child_name TRADES_DIR p = Some k \<and> endswith k ''.json''})))"
    by simp_all
  show ?thesis by (intro conjI r h2 h4 c)
qed

text \<open>
  Two creations whose bodies name the same \<^verbatim>\<open>trade_id\<close> are both answered 201, and
  the count after them is 1.
\<close>

theorem repeated_id_counts_once:
  "run_requests
     [Create (Json (JObj (sample_trade @ [(''trade_id'', JStr ''x'')]))) ''u1'' ''t0'',
      Create (Json (JObj (sample_trade @ [(''trade_id'', JStr ''x'')]))) ''u2'' ''t1''] []
     = (2, 0,
        [(''trades/x.json'',
          Parsed (JObj (sample_trade @ [(''trade_id'', JStr ''x''), (''timestamp'', JStr ''t1'')])))])
   \<and> map_of (payload (get_all_trades
        [(''trades/x.json'',
          Parsed (JObj (sample_trade @ [(''trade_id'', JStr ''x''), (''timestamp'', JStr ''t1'')])))]))
        ''count'' = Some (JNum 1)"
  by (simp add: create_trade_def save_trade_obj sample_trade_def required_fields_def
      missing_of_obj Let_def path_join_def TRADES_DIR_def put_file_def
      can_create_def is_dir_def parent_dir_def base_name_def path_exists_def
      get_all_trades_def TradeManager_get_all_trades_def listdir_def child_name_def
      List.map_filter_simps endswith_def read_json_def)

end
